theory Spec2Isabelle
  imports Main
begin

section \<open>The codapt client: shared types\<close>

text \<open>
  The repository holds two variants of the client: the file that handles the events
  \<^verbatim>\<open>print\<close> and \<^verbatim>\<open>readStdin\<close> (its payload has a \<^verbatim>\<open>stdin\<close> field), and
  \<^verbatim>\<open>src/main.ts\<close>, which handles \<^verbatim>\<open>emitToStdout\<close> and \<^verbatim>\<open>readLine\<close>. Definitions
  without suffix embed the first file; definitions ending in \<open>_main\<close> embed
  \<^verbatim>\<open>src/main.ts\<close>. Functions whose text is the same in both files are embedded once.
\<close>

text \<open>
  The deadline of an execution request is a whole number that is not negative, as the
  specification's data model has it (\<^verbatim>\<open>exec\<close> refuses any other number by throwing
  before it starts anything).
\<close>

record CommandPayload =
  command :: string
  stdin :: "string option"
  timeoutMs :: "nat option"

text \<open>The payload of \<^verbatim>\<open>src/main.ts\<close> has no \<^verbatim>\<open>stdin\<close> field.\<close>

record CommandPayload_main =
  command_main :: string
  timeoutMs_main :: "nat option"

text \<open>
  The value of \<^verbatim>\<open>error.code\<close> and of \<^verbatim>\<open>exitCode\<close>. The interfaces declare a number;
  at run time \<^verbatim>\<open>exec\<close> also passes errors whose code is a string (\<^verbatim>\<open>'ENOENT'\<close> when
  the child cannot be spawned), and \<^verbatim>\<open>error.code || -1\<close> hands such a string on as the
  exit code.
\<close>

datatype code_value = NumberCode int | StringCode string

record CommandResponse =
  exitCode :: code_value
  stdout :: string
  stderr :: string

record EnvInfo =
  argv :: "string list"
  env :: "(string \<times> string) list"
  cwd :: string
  pid :: int

section \<open>The runtime the client runs on\<close>

text \<open>
  The error object that \<^verbatim>\<open>exec\<close> hands to its completion callback. The client reads
  only \<^verbatim>\<open>error.code\<close>: the exit status of a child that exited with a status other
  than 0, the name of the system error when the child could not be spawned, absent when
  the child was killed.
\<close>

record ExecException =
  code :: "code_value option"
  killed :: bool

text \<open>
  A promise is settled once; a rejection carries either the object built by the
  \<^verbatim>\<open>error\<close> listener or the \<^verbatim>\<open>Error\<close> thrown inside the executor.
\<close>

datatype rejection = RejectWith CommandResponse | Thrown string

datatype promise = Pending | Resolved CommandResponse | Rejected rejection

text \<open>
  A spawned child: what \<^verbatim>\<open>exec\<close> was called with, what has been written to its
  standard input, whether the client's \<^verbatim>\<open>error\<close> listener is registered, the promise
  of its \<^verbatim>\<open>runCommand\<close> call and the acknowledgment callback of the request; and, of
  the state that \<^verbatim>\<open>exec\<close> keeps, whether it has called its completion callback (it
  does so once) and whether it has killed the child.
\<close>

record child =
  exec_command :: string
  exec_timeout :: "nat option"
  stdin_written :: "string list"
  stdin_ended :: bool
  error_listener :: bool
  result :: promise
  callback_id :: nat
  completed :: bool
  child_killed :: bool

text \<open>The closure of the spinner's \<^verbatim>\<open>setInterval\<close>: the text and the counter \<^verbatim>\<open>i\<close>.\<close>

record spinner =
  spinner_text :: string
  spinner_i :: nat

text \<open>
  What the process writes to its standard output: \<^verbatim>\<open>process.stdout.write\<close> and
  \<^verbatim>\<open>console.log\<close> (which writes its argument and a line feed to the same stream).
\<close>

datatype written = Write string | ConsoleLog string

text \<open>What an acknowledgment callback is called with.\<close>

datatype ack =
    AckEnvInfo EnvInfo
  | AckResponse CommandResponse
  | AckThrown string
  | AckVoid
  | AckLine string

text \<open>
  The state of the process: the facts of \<^verbatim>\<open>process\<close>, the two module variables, the
  armed timers (\<^verbatim>\<open>setInterval\<close> handles with their closures, \<^verbatim>\<open>setTimeout\<close> handles
  with their delay; every \<^verbatim>\<open>setTimeout\<close> closure of the client is
  \<^verbatim>\<open>() => stopLoading()\<close>), the output written so far, the state of
  \<^verbatim>\<open>process.stdin\<close>, the children, the acknowledgments sent, and the exit code once
  \<^verbatim>\<open>process.exit\<close> has been called.
\<close>

record agent =
  process_argv :: "string list"
  process_env :: "(string \<times> string) list"
  process_cwd :: string
  process_pid :: int
  loadingInterval :: "nat option"
  lastLoadingLineWritten :: string
  intervals :: "(nat \<times> spinner) list"
  timeouts :: "(nat \<times> int) list"
  next_timer :: nat
  process_stdout :: "written list"
  stdin_flowing :: bool
  stdin_once :: "nat list"
  children :: "child list"
  acks :: "(nat \<times> ack) list"
  exited :: "int option"

definition initial :: "string list \<Rightarrow> (string \<times> string) list \<Rightarrow> string \<Rightarrow> int \<Rightarrow> agent" where
  "initial av ev dir p =
     \<lparr>process_argv = av, process_env = ev, process_cwd = dir, process_pid = p,
      loadingInterval = None, lastLoadingLineWritten = [],
      intervals = [], timeouts = [], next_timer = 0,
      process_stdout = [], stdin_flowing = False, stdin_once = [],
      children = [], acks = [], exited = None\<rparr>"

definition stdout_write :: "string \<Rightarrow> agent \<Rightarrow> agent" where
  "stdout_write text s = s\<lparr>process_stdout := process_stdout s @ [Write text]\<rparr>"

definition console_log :: "string \<Rightarrow> agent \<Rightarrow> agent" where
  "console_log text s = s\<lparr>process_stdout := process_stdout s @ [ConsoleLog text]\<rparr>"

definition callback :: "nat \<Rightarrow> ack \<Rightarrow> agent \<Rightarrow> agent" where
  "callback k v s = s\<lparr>acks := acks s @ [(k, v)]\<rparr>"

definition setTimeout :: "int \<Rightarrow> agent \<Rightarrow> agent" where
  "setTimeout ms s =
     s\<lparr>timeouts := timeouts s @ [(next_timer s, ms)], next_timer := Suc (next_timer s)\<rparr>"

definition clearInterval :: "nat \<Rightarrow> agent \<Rightarrow> agent" where
  "clearInterval h s = s\<lparr>intervals := filter (\<lambda>t. fst t \<noteq> h) (intervals s)\<rparr>"

definition process_exit :: "int \<Rightarrow> agent \<Rightarrow> agent" where
  "process_exit c s = s\<lparr>exited := Some c\<rparr>"

text \<open>A string of the environment is truthy when it is set and not empty.\<close>

definition truthy :: "string option \<Rightarrow> bool" where
  "truthy v = (case v of None \<Rightarrow> False | Some x \<Rightarrow> x \<noteq> [])"

text \<open>A number in a template literal (the client's numbers are whole).\<close>

fun digits :: "nat \<Rightarrow> string" where
  "digits n =
     (if n < 10 then [char_of (48 + n)] else digits (n div 10) @ [char_of (48 + n mod 10)])"

declare digits.simps [simp del]

definition number_string :: "int \<Rightarrow> string" where
  "number_string n = (if n < 0 then CHR ''-'' # digits (nat (- n)) else digits (nat n))"

definition template_number :: "int option \<Rightarrow> string" where
  "template_number v = (case v of None \<Rightarrow> ''null'' | Some n \<Rightarrow> number_string n)"

section \<open>Helper functions of both files\<close>

definition debug_tag :: string where
  "debug_tag = ''[CODAPT CLIENT DEBUG] ''"

definition debugLog :: "string \<Rightarrow> agent \<Rightarrow> agent" where
  "debugLog message s =
     (if truthy (map_of (process_env s) ''CODAPT_DEBUG'')
      then console_log (debug_tag @ message) s else s)"

definition clear_sequence :: string where
  "clear_sequence = [CHR 0x1B] @ ''[0G'' @ [CHR 0x1B] @ ''[2K''"

definition clearLine :: "agent \<Rightarrow> agent" where
  "clearLine s = stdout_write clear_sequence s"

definition stopLoading :: "agent \<Rightarrow> agent" where
  "stopLoading s =
     (case loadingInterval s of
        Some h \<Rightarrow> clearLine ((clearInterval h s)\<lparr>loadingInterval := None\<rparr>)
      | None \<Rightarrow> s)"

definition spinnerChars :: "string list" where
  "spinnerChars = [''|'', ''/'', ''-'', [CHR 0x5C]]"

definition spinner_char :: "nat \<Rightarrow> string" where
  "spinner_char i = (if i < length spinnerChars then spinnerChars ! i else ''undefined'')"

definition setInterval :: "spinner \<Rightarrow> agent \<Rightarrow> agent" where
  "setInterval f s =
     s\<lparr>intervals := intervals s @ [(next_timer s, f)],
       loadingInterval := Some (next_timer s),
       next_timer := Suc (next_timer s)\<rparr>"

text \<open>
  The completion callback that the client gives to \<^verbatim>\<open>exec\<close>: \<^verbatim>\<open>error.code || -1\<close> is
  the code when it is a number other than 0 or a string that is not empty, and -1
  otherwise.
\<close>

definition code_or_minus_one :: "code_value option \<Rightarrow> code_value" where
  "code_or_minus_one v =
     (case v of
        None \<Rightarrow> NumberCode (- 1)
      | Some (NumberCode c) \<Rightarrow> if c = 0 then NumberCode (- 1) else NumberCode c
      | Some (StringCode t) \<Rightarrow> if t = [] then NumberCode (- 1) else StringCode t)"

definition exec_response :: "ExecException option \<Rightarrow> string \<Rightarrow> string \<Rightarrow> CommandResponse" where
  "exec_response error out err =
     (case error of
        Some e \<Rightarrow> \<lparr>exitCode = code_or_minus_one (code e), stdout = out, stderr = err\<rparr>
      | None \<Rightarrow> \<lparr>exitCode = NumberCode 0, stdout = out, stderr = err\<rparr>)"

definition error_response :: "string \<Rightarrow> CommandResponse" where
  "error_response message = \<lparr>exitCode = NumberCode (- 1), stdout = [], stderr = message\<rparr>"

text \<open>
  Settling the promise of child \<open>c\<close> runs the handler chained on it, once:
  \<^verbatim>\<open>.then\<close> logs and acknowledges the response, \<^verbatim>\<open>.catch\<close> logs and acknowledges
  the rejection as it is. Settling a settled promise does nothing.
\<close>

definition resolve :: "nat \<Rightarrow> CommandResponse \<Rightarrow> agent \<Rightarrow> agent" where
  "resolve c response s =
     (if c < length (children s) \<and> result (children s ! c) = Pending
      then let ch = children s ! c in
        callback (callback_id ch) (AckResponse response)
          (debugLog (''Command succeeded: '' @ exec_command ch)
             (s\<lparr>children := (children s)[c := ch\<lparr>result := Resolved response\<rparr>]\<rparr>))
      else s)"

definition reject :: "nat \<Rightarrow> rejection \<Rightarrow> agent \<Rightarrow> agent" where
  "reject c error s =
     (if c < length (children s) \<and> result (children s ! c) = Pending
      then let ch = children s ! c in
        callback (callback_id ch)
          (case error of RejectWith r \<Rightarrow> AckResponse r | Thrown m \<Rightarrow> AckThrown m)
          (debugLog (''Command failed: '' @ exec_command ch)
             (s\<lparr>children := (children s)[c := ch\<lparr>result := Rejected error\<rparr>]\<rparr>))
      else s)"

text \<open>
  \<^verbatim>\<open>exec\<close> calls its completion callback for child \<open>c\<close>, with the output it has
  captured. It does so once for a child: its exit handler returns at once when it has
  run before.
\<close>

definition exec_callback :: "nat \<Rightarrow> ExecException option \<Rightarrow> string \<Rightarrow> string \<Rightarrow> agent \<Rightarrow> agent" where
  "exec_callback c error out err s =
     (if c < length (children s) \<and> \<not> completed (children s ! c)
      then resolve c (exec_response error out err)
             (s\<lparr>children := (children s)[c := (children s ! c)\<lparr>completed := True\<rparr>]\<rparr>)
      else s)"

text \<open>
  Child \<open>c\<close> emits \<^verbatim>\<open>error\<close> with an error object, of which \<open>e\<close> holds the fields
  that the completion callback reads and \<open>message\<close> the text. The listeners run in the
  order of their registration. The first is the one that \<^verbatim>\<open>exec\<close> registered before
  it returned the child: it calls the completion callback with the error and the output
  captured so far. The client's listener, when \<^verbatim>\<open>runCommand\<close> got as far as registering
  it, runs after that.
\<close>

definition child_error :: "nat \<Rightarrow> ExecException \<Rightarrow> string \<Rightarrow> string \<Rightarrow> string \<Rightarrow> agent \<Rightarrow> agent" where
  "child_error c e message out err s =
     (if c < length (children s)
      then let s1 = exec_callback c (Some e) out err s in
        if error_listener (children s1 ! c)
        then reject c (RejectWith (error_response message)) s1
        else s1
      else s)"

text \<open>
  The deadline of child \<open>c\<close> passes, \<open>out\<close> and \<open>err\<close> being the output captured
  until then. \<^verbatim>\<open>exec\<close> has armed a timer only for a \<^verbatim>\<open>timeout\<close> greater than 0, and
  has cleared it when the child has completed; when the timer fires \<^verbatim>\<open>exec\<close> kills the
  child and reports it to the completion callback with an error that has no code.
  Without a timer nothing happens.
\<close>

definition exec_deadline :: "nat \<Rightarrow> string \<Rightarrow> string \<Rightarrow> agent \<Rightarrow> agent" where
  "exec_deadline c out err s =
     (if c < length (children s) \<and> \<not> completed (children s ! c) \<and>
         (case exec_timeout (children s ! c) of Some ms \<Rightarrow> 0 < ms | None \<Rightarrow> False)
      then exec_callback c (Some \<lparr>code = None, killed = True\<rparr>) out err
             (s\<lparr>children := (children s)[c := (children s ! c)\<lparr>child_killed := True\<rparr>]\<rparr>)
      else s)"

text \<open>
  \<^verbatim>\<open>process.stdin\<close> emits \<^verbatim>\<open>data\<close>, which it does only while flowing: every
  \<^verbatim>\<open>once\<close> listener is removed and called with the chunk; each pauses the stream and
  acknowledges its request with the chunk.
\<close>

definition stdin_listener :: "string \<Rightarrow> nat \<Rightarrow> agent \<Rightarrow> agent" where
  "stdin_listener text k s = callback k (AckLine text) (s\<lparr>stdin_flowing := False\<rparr>)"

definition stdin_data :: "string \<Rightarrow> agent \<Rightarrow> agent" where
  "stdin_data text s =
     (if stdin_flowing s
      then fold (stdin_listener text) (stdin_once s) (s\<lparr>stdin_once := []\<rparr>)
      else s)"

text \<open>The timer \<open>h\<close> of a \<^verbatim>\<open>setTimeout\<close> fires: it is disarmed and its closure runs.\<close>

definition timeout_fire :: "nat \<Rightarrow> agent \<Rightarrow> agent" where
  "timeout_fire h s =
     (if h \<in> fst ` set (timeouts s)
      then stopLoading (s\<lparr>timeouts := filter (\<lambda>t. fst t \<noteq> h) (timeouts s)\<rparr>)
      else s)"

definition getEnvInfo :: "nat \<Rightarrow> agent \<Rightarrow> agent" where
  "getEnvInfo k s =
     callback k
       (AckEnvInfo \<lparr>argv = process_argv s, env = process_env s,
                    cwd = process_cwd s, pid = process_pid s\<rparr>)
       (debugLog ''Received getEnvInfo request'' s)"

definition on_stopLoading :: "nat \<Rightarrow> agent \<Rightarrow> agent" where
  "on_stopLoading k s = callback k AckVoid (debugLog ''Stopping loading'' (stopLoading s))"

definition on_terminate :: "agent \<Rightarrow> agent" where
  "on_terminate s = process_exit 0 (debugLog ''Terminating'' s)"

text \<open>The handler of both \<^verbatim>\<open>readStdin\<close> and \<^verbatim>\<open>readLine\<close>.\<close>

definition on_readStdin :: "nat \<Rightarrow> agent \<Rightarrow> agent" where
  "on_readStdin k s =
     (let s1 = stopLoading s in
      s1\<lparr>stdin_flowing := True, stdin_once := stdin_once s1 @ [k]\<rparr>)"

section \<open>The file with \<^verbatim>\<open>print\<close> and \<^verbatim>\<open>readStdin\<close>\<close>

definition runCommand :: "CommandPayload \<Rightarrow> bool \<Rightarrow> nat \<Rightarrow> agent \<Rightarrow> agent" where
  "runCommand payload child_stdin k s =
     (let c = length (children s);
          ch = \<lparr>exec_command = command payload, exec_timeout = timeoutMs payload,
                stdin_written = [], stdin_ended = False, error_listener = False,
                result = Pending, callback_id = k, completed = False, child_killed = False\<rparr>;
          s1 = s\<lparr>children := children s @ [ch]\<rparr>
      in case stdin payload of
           Some text \<Rightarrow>
             if \<not> child_stdin
             then reject c (Thrown ''unexpected: child.stdin is null'') s1
             else s1\<lparr>children := (children s1)
                        [c := ch\<lparr>stdin_written := [text], stdin_ended := True,
                                 error_listener := True\<rparr>]\<rparr>
         | None \<Rightarrow> s1\<lparr>children := (children s1)[c := ch\<lparr>error_listener := True\<rparr>]\<rparr>)"

definition writeLastLoadingLine :: "agent \<Rightarrow> agent" where
  "writeLastLoadingLine s = stdout_write (lastLoadingLineWritten s) s"

definition startLoading :: "string \<Rightarrow> int option \<Rightarrow> agent \<Rightarrow> agent" where
  "startLoading text ms s =
     (let s1 = stopLoading s;
          s2 = debugLog (''Starting loading: '' @ text @ '' with timeoutMs='' @ template_number ms) s1;
          s3 = (case ms of Some t \<Rightarrow> setTimeout t s2 | None \<Rightarrow> s2)
      in setInterval \<lparr>spinner_text = text, spinner_i = 0\<rparr> s3)"

text \<open>The closure of the interval \<open>h\<close> runs (only an armed interval fires).\<close>

definition interval_tick :: "nat \<Rightarrow> agent \<Rightarrow> agent" where
  "interval_tick h s =
     (case map_of (intervals s) h of
        None \<Rightarrow> s
      | Some f \<Rightarrow>
          let s1 = clearLine s;
              s2 = s1\<lparr>lastLoadingLineWritten := spinner_char (spinner_i f) @ '' '' @ spinner_text f\<rparr>;
              s3 = writeLastLoadingLine s2
          in s3\<lparr>intervals :=
                  map (\<lambda>t. if fst t = h then (h, f\<lparr>spinner_i := (spinner_i f + 1) mod length spinnerChars\<rparr>) else t)
                      (intervals s3)\<rparr>)"

definition main :: "agent \<Rightarrow> agent" where
  "main s = startLoading ''Connecting to server...'' (Some 5000) s"

definition on_connect :: "agent \<Rightarrow> agent" where
  "on_connect s = debugLog ''Connected to server'' (stopLoading s)"

definition on_runCommand :: "CommandPayload \<Rightarrow> bool \<Rightarrow> nat \<Rightarrow> agent \<Rightarrow> agent" where
  "on_runCommand payload child_stdin k s =
     runCommand payload child_stdin k (debugLog (''Received command: '' @ command payload) s)"

definition on_print :: "string \<Rightarrow> nat \<Rightarrow> agent \<Rightarrow> agent" where
  "on_print text k s =
     (let s1 = (if loadingInterval s \<noteq> None then clearLine s else s);
          s2 = stdout_write text s1;
          s3 = (if loadingInterval s2 \<noteq> None then writeLastLoadingLine s2 else s2)
      in callback k AckVoid s3)"

definition on_startLoading :: "string \<Rightarrow> int option \<Rightarrow> nat \<Rightarrow> agent \<Rightarrow> agent" where
  "on_startLoading text ms k s = callback k AckVoid (startLoading text ms s)"

definition on_disconnect :: "agent \<Rightarrow> agent" where
  "on_disconnect s = process_exit 0 (debugLog ''Disconnected from server, terminating...'' s)"

text \<open>
  What the event loop delivers: the events of the channel (each request with the
  identity of its acknowledgment callback), and the events of the runtime: a timer
  fires, standard input delivers a chunk, \<^verbatim>\<open>exec\<close> completes a child, a child emits
  \<^verbatim>\<open>error\<close>, the deadline of a child passes. With a \<^verbatim>\<open>runCommand\<close> request comes
  whether the child that \<^verbatim>\<open>exec\<close> returns has a \<^verbatim>\<open>stdin\<close> stream.
\<close>

datatype event =
    Connect
  | GetEnvInfo nat
  | RunCommand CommandPayload bool nat
  | Print string nat
  | ReadStdin nat
  | StartLoading string "int option" nat
  | StopLoading nat
  | Terminate
  | Disconnect
  | IntervalTick nat
  | TimeoutFire nat
  | StdinData string
  | ExecCallback nat "ExecException option" string string
  | ChildError nat ExecException string string string
  | Deadline nat string string

fun dispatch :: "event \<Rightarrow> agent \<Rightarrow> agent" where
  "dispatch Connect s = on_connect s"
| "dispatch (GetEnvInfo k) s = getEnvInfo k s"
| "dispatch (RunCommand payload child_stdin k) s = on_runCommand payload child_stdin k s"
| "dispatch (Print text k) s = on_print text k s"
| "dispatch (ReadStdin k) s = on_readStdin k s"
| "dispatch (StartLoading text ms k) s = on_startLoading text ms k s"
| "dispatch (StopLoading k) s = on_stopLoading k s"
| "dispatch Terminate s = on_terminate s"
| "dispatch Disconnect s = on_disconnect s"
| "dispatch (IntervalTick h) s = interval_tick h s"
| "dispatch (TimeoutFire h) s = timeout_fire h s"
| "dispatch (StdinData text) s = stdin_data text s"
| "dispatch (ExecCallback c error out err) s = exec_callback c error out err s"
| "dispatch (ChildError c e message out err) s = child_error c e message out err s"
| "dispatch (Deadline c out err) s = exec_deadline c out err s"

text \<open>After \<^verbatim>\<open>process.exit\<close> nothing runs.\<close>

definition step :: "agent \<Rightarrow> event \<Rightarrow> agent" where
  "step s e = (if exited s = None then dispatch e s else s)"

definition run :: "agent \<Rightarrow> event list \<Rightarrow> agent" where
  "run s es = foldl step s es"

section \<open>The file \<^verbatim>\<open>src/main.ts\<close>\<close>

definition runCommand_main :: "CommandPayload_main \<Rightarrow> nat \<Rightarrow> agent \<Rightarrow> agent" where
  "runCommand_main payload k s =
     s\<lparr>children := children s @
        [\<lparr>exec_command = command_main payload, exec_timeout = timeoutMs_main payload,
          stdin_written = [], stdin_ended = False, error_listener = True,
          result = Pending, callback_id = k, completed = False, child_killed = False\<rparr>]\<rparr>"

definition startLoading_main :: "string \<Rightarrow> int option \<Rightarrow> agent \<Rightarrow> agent" where
  "startLoading_main text ms s =
     (let s1 = stopLoading s;
          s2 = debugLog (''Starting loading: '' @ text @ '' with timeout '' @ template_number ms @ ''ms'') s1;
          s3 = (case ms of Some t \<Rightarrow> setTimeout t s2 | None \<Rightarrow> s2)
      in setInterval \<lparr>spinner_text = text, spinner_i = 0\<rparr> s3)"

definition interval_tick_main :: "nat \<Rightarrow> agent \<Rightarrow> agent" where
  "interval_tick_main h s =
     (case map_of (intervals s) h of
        None \<Rightarrow> s
      | Some f \<Rightarrow>
          let s1 = clearLine s;
              s2 = stdout_write (spinner_char (spinner_i f) @ '' '' @ spinner_text f) s1
          in s2\<lparr>intervals :=
                  map (\<lambda>t. if fst t = h then (h, f\<lparr>spinner_i := (spinner_i f + 1) mod length spinnerChars\<rparr>) else t)
                      (intervals s2)\<rparr>)"

definition on_connect_main :: "agent \<Rightarrow> agent" where
  "on_connect_main s = debugLog ''Connected to server, sending start event'' s"

definition on_runCommand_main :: "CommandPayload_main \<Rightarrow> nat \<Rightarrow> agent \<Rightarrow> agent" where
  "on_runCommand_main payload k s =
     runCommand_main payload k (debugLog (''Received command: '' @ command_main payload) s)"

definition on_emitToStdout :: "string \<Rightarrow> nat \<Rightarrow> agent \<Rightarrow> agent" where
  "on_emitToStdout text k s = callback k AckVoid (stdout_write text (stopLoading s))"

definition on_startLoading_main :: "string \<Rightarrow> int option \<Rightarrow> nat \<Rightarrow> agent \<Rightarrow> agent" where
  "on_startLoading_main text ms k s = callback k AckVoid (startLoading_main text ms s)"

definition on_disconnect_main :: "agent \<Rightarrow> agent" where
  "on_disconnect_main s = debugLog ''Disconnected from server.'' s"

datatype event_main =
    Connect_main
  | GetEnvInfo_main nat
  | RunCommand_main CommandPayload_main nat
  | EmitToStdout string nat
  | ReadLine nat
  | StartLoading_main string "int option" nat
  | StopLoading_main nat
  | Terminate_main
  | Disconnect_main
  | IntervalTick_main nat
  | TimeoutFire_main nat
  | StdinData_main string
  | ExecCallback_main nat "ExecException option" string string
  | ChildError_main nat ExecException string string string
  | Deadline_main nat string string

fun dispatch_main :: "event_main \<Rightarrow> agent \<Rightarrow> agent" where
  "dispatch_main Connect_main s = on_connect_main s"
| "dispatch_main (GetEnvInfo_main k) s = getEnvInfo k s"
| "dispatch_main (RunCommand_main payload k) s = on_runCommand_main payload k s"
| "dispatch_main (EmitToStdout text k) s = on_emitToStdout text k s"
| "dispatch_main (ReadLine k) s = on_readStdin k s"
| "dispatch_main (StartLoading_main text ms k) s = on_startLoading_main text ms k s"
| "dispatch_main (StopLoading_main k) s = on_stopLoading k s"
| "dispatch_main Terminate_main s = on_terminate s"
| "dispatch_main Disconnect_main s = on_disconnect_main s"
| "dispatch_main (IntervalTick_main h) s = interval_tick_main h s"
| "dispatch_main (TimeoutFire_main h) s = timeout_fire h s"
| "dispatch_main (StdinData_main text) s = stdin_data text s"
| "dispatch_main (ExecCallback_main c error out err) s = exec_callback c error out err s"
| "dispatch_main (ChildError_main c e message out err) s = child_error c e message out err s"
| "dispatch_main (Deadline_main c out err) s = exec_deadline c out err s"

definition step_main :: "agent \<Rightarrow> event_main \<Rightarrow> agent" where
  "step_main s e = (if exited s = None then dispatch_main e s else s)"

definition run_main :: "agent \<Rightarrow> event_main list \<Rightarrow> agent" where
  "run_main s es = foldl step_main s es"

section \<open>Notions used to state the properties\<close>

text \<open>Request \<open>k\<close> is waiting for input: its listener is registered and the stream flows.\<close>

definition awaiting :: "nat \<Rightarrow> agent \<Rightarrow> bool" where
  "awaiting k s = (k \<in> set (stdin_once s) \<and> stdin_flowing s)"

text \<open>Two states of the client after start-up, without and with the debug toggle.\<close>

definition quiet_example :: agent where
  "quiet_example = main (initial [''node'', ''codapt''] [] ''/home'' 4242)"

definition quiet_example_main :: agent where
  "quiet_example_main =
     startLoading_main ''Working'' None (initial [''node'', ''codapt''] [] ''/home'' 4242)"

text \<open>
  One line, in the words of the specification's input-line contract: the characters of
  a single line, with or without the line separator that closes it. A line feed
  anywhere but at the end makes the text more than one line.
\<close>

definition exactly_one_line :: "string \<Rightarrow> bool" where
  "exactly_one_line t = (CHR 0x0A \<notin> set (butlast t))"

definition debug_example :: agent where
  "debug_example = main (initial [''node'', ''codapt''] [(''CODAPT_DEBUG'', ''1'')] ''/home'' 4242)"

definition debug_example_main :: agent where
  "debug_example_main =
     startLoading_main ''Working'' None
       (initial [''node'', ''codapt''] [(''CODAPT_DEBUG'', ''1'')] ''/home'' 4242)"

text \<open>The lines that \<^verbatim>\<open>console.log\<close> has written, and the toggle that \<^verbatim>\<open>debugLog\<close> tests.\<close>

fun console_lines :: "written list \<Rightarrow> string list" where
  "console_lines [] = []"
| "console_lines (Write t # ws) = console_lines ws"
| "console_lines (ConsoleLog m # ws) = m # console_lines ws"

definition log_lines :: "agent \<Rightarrow> string list" where
  "log_lines s = console_lines (process_stdout s)"

definition debugging :: "agent \<Rightarrow> bool" where
  "debugging s = truthy (map_of (process_env s) ''CODAPT_DEBUG'')"

text \<open>The events of the runtime that settle the promise of child \<open>c\<close>.\<close>

fun settles :: "nat \<Rightarrow> event \<Rightarrow> bool" where
  "settles c (ExecCallback c' error out err) = (c' = c)"
| "settles c (ChildError c' e message out err) = (c' = c)"
| "settles c (Deadline c' out err) = (c' = c)"
| "settles c e = False"

text \<open>
  What \<^verbatim>\<open>exec\<close> passes as \<^verbatim>\<open>error\<close> to its completion callback when the child has
  exited by itself with status \<open>c\<close>: nothing for status 0, otherwise an error whose
  \<^verbatim>\<open>code\<close> is the status. (A child that \<^verbatim>\<open>exec\<close> killed, as at the end of its
  \<^verbatim>\<open>timeout\<close>, has no exit status: the error has no \<^verbatim>\<open>code\<close>.) This is the
  documented interface of \<^verbatim>\<open>exec\<close> of Node's \<^verbatim>\<open>child_process\<close>, the host's
  process primitive, which the client imports and relies on.
\<close>

definition exit_report :: "int \<Rightarrow> ExecException option" where
  "exit_report c = (if c = 0 then None else Some \<lparr>code = Some (NumberCode c), killed = False\<rparr>)"

definition cat_example :: CommandPayload where
  "cat_example = \<lparr>command = ''cat'', stdin = Some (''hello'' @ [CHR 0x0A]), timeoutMs = Some 200\<rparr>"

text \<open>The armed intervals are exactly the one that \<^verbatim>\<open>loadingInterval\<close> holds, if any.\<close>

definition one_spinner :: "agent \<Rightarrow> bool" where
  "one_spinner s =
     (map fst (intervals s) = (case loadingInterval s of None \<Rightarrow> [] | Some h \<Rightarrow> [h]))"

text \<open>Requests and an error used as examples.\<close>

definition plain_example :: CommandPayload where
  "plain_example = \<lparr>command = ''ls'', stdin = None, timeoutMs = None\<rparr>"


definition enoent :: ExecException where
  "enoent = \<lparr>code = Some (StringCode ''ENOENT''), killed = False\<rparr>"

section \<open>Basic facts\<close>

lemmas basic_defs = stdout_write_def console_log_def callback_def setTimeout_def
  clearInterval_def process_exit_def debugLog_def clearLine_def stopLoading_def setInterval_def

lemmas handler_defs = getEnvInfo_def on_stopLoading_def on_terminate_def on_readStdin_def
  runCommand_def writeLastLoadingLine_def startLoading_def interval_tick_def on_connect_def
  on_runCommand_def on_print_def on_startLoading_def on_disconnect_def
  resolve_def reject_def exec_callback_def child_error_def exec_deadline_def timeout_fire_def

lemmas handler_main_defs = getEnvInfo_def on_stopLoading_def on_terminate_def on_readStdin_def
  runCommand_main_def startLoading_main_def interval_tick_main_def on_connect_main_def
  on_runCommand_main_def on_emitToStdout_def on_startLoading_main_def on_disconnect_main_def
  resolve_def reject_def exec_callback_def child_error_def exec_deadline_def timeout_fire_def

lemmas example_defs = quiet_example_def quiet_example_main_def main_def initial_def truthy_def

lemma run_Cons: "run s (e # es) = run (step s e) es"
  by (simp add: run_def)

lemma run_main_Cons: "run_main s (e # es) = run_main (step_main s e) es"
  by (simp add: run_main_def)

subsection \<open>The listeners of standard input\<close>

lemma fold_stdin_listener_acks:
  "acks (fold (stdin_listener chunk) ks s) = acks s @ map (\<lambda>k. (k, AckLine chunk)) ks"
  by (induction ks arbitrary: s) (simp_all add: stdin_listener_def callback_def)

lemma fold_stdin_listener_once:
  "stdin_once (fold (stdin_listener chunk) ks s) = stdin_once s"
  by (induction ks arbitrary: s) (simp_all add: stdin_listener_def callback_def)

lemma fold_stdin_listener_flowing:
  "stdin_flowing (fold (stdin_listener chunk) ks s) = (if ks = [] then stdin_flowing s else False)"
  by (induction ks arbitrary: s) (simp_all add: stdin_listener_def callback_def)

lemma awaiting_readStdin: "awaiting k (on_readStdin k s)"
  by (simp add: awaiting_def on_readStdin_def Let_def)

lemma awaiting_dispatch:
  "\<forall>t. e \<noteq> StdinData t \<Longrightarrow> awaiting k s \<Longrightarrow> awaiting k (dispatch e s)"
  by (cases e) (auto simp: awaiting_def handler_defs basic_defs Let_def split: option.splits)

lemma awaiting_run:
  "\<forall>e\<in>set es. \<forall>t. e \<noteq> StdinData t \<Longrightarrow> awaiting k s \<Longrightarrow> awaiting k (run s es)"
  unfolding run_def
  by (induction es arbitrary: s) (simp_all add: step_def awaiting_dispatch)

lemma awaiting_dispatch_main:
  "\<forall>t. e \<noteq> StdinData_main t \<Longrightarrow> awaiting k s \<Longrightarrow> awaiting k (dispatch_main e s)"
  by (cases e) (auto simp: awaiting_def handler_main_defs basic_defs Let_def split: option.splits)

lemma awaiting_run_main:
  "\<forall>e\<in>set es. \<forall>t. e \<noteq> StdinData_main t \<Longrightarrow> awaiting k s \<Longrightarrow> awaiting k (run_main s es)"
  unfolding run_main_def
  by (induction es arbitrary: s) (simp_all add: step_main_def awaiting_dispatch_main)

lemma stdin_data_awaiting:
  "awaiting k s \<Longrightarrow>
     acks (stdin_data chunk s) = acks s @ map (\<lambda>j. (j, AckLine chunk)) (stdin_once s) \<and>
     stdin_once (stdin_data chunk s) = [] \<and> \<not> stdin_flowing (stdin_data chunk s)"
  by (auto simp: awaiting_def stdin_data_def fold_stdin_listener_acks fold_stdin_listener_once
      fold_stdin_listener_flowing)

lemma readStdin_chunk:
  assumes "exited s = None"
    and "\<forall>e\<in>set es. \<forall>t. e \<noteq> StdinData t"
    and "exited (run s (ReadStdin k # es)) = None"
  shows "k \<in> set (stdin_once (run s (ReadStdin k # es))) \<and>
         acks (run s (ReadStdin k # es @ [StdinData chunk])) =
           acks (run s (ReadStdin k # es)) @
           map (\<lambda>j. (j, AckLine chunk)) (stdin_once (run s (ReadStdin k # es))) \<and>
         stdin_once (run s (ReadStdin k # es @ [StdinData chunk])) = [] \<and>
         \<not> stdin_flowing (run s (ReadStdin k # es @ [StdinData chunk]))"
proof -
  let ?s1 = "run s (ReadStdin k # es)"
  have "awaiting k (step s (ReadStdin k))"
    using assms(1) by (simp add: step_def awaiting_readStdin)
  then have a: "awaiting k ?s1"
    using assms(2) by (simp add: run_Cons awaiting_run)
  have r: "run s (ReadStdin k # es @ [StdinData chunk]) = stdin_data chunk ?s1"
    using assms(3) by (simp add: run_def step_def)
  show ?thesis
    using a stdin_data_awaiting [OF a, of chunk] unfolding r by (simp add: awaiting_def)
qed

lemma readLine_chunk:
  assumes "exited s = None"
    and "\<forall>e\<in>set es. \<forall>t. e \<noteq> StdinData_main t"
    and "exited (run_main s (ReadLine k # es)) = None"
  shows "k \<in> set (stdin_once (run_main s (ReadLine k # es))) \<and>
         acks (run_main s (ReadLine k # es @ [StdinData_main chunk])) =
           acks (run_main s (ReadLine k # es)) @
           map (\<lambda>j. (j, AckLine chunk)) (stdin_once (run_main s (ReadLine k # es))) \<and>
         stdin_once (run_main s (ReadLine k # es @ [StdinData_main chunk])) = [] \<and>
         \<not> stdin_flowing (run_main s (ReadLine k # es @ [StdinData_main chunk]))"
proof -
  let ?s1 = "run_main s (ReadLine k # es)"
  have "awaiting k (step_main s (ReadLine k))"
    using assms(1) by (simp add: step_main_def awaiting_readStdin)
  then have a: "awaiting k ?s1"
    using assms(2) by (simp add: run_main_Cons awaiting_run_main)
  have r: "run_main s (ReadLine k # es @ [StdinData_main chunk]) = stdin_data chunk ?s1"
    using assms(3) by (simp add: run_main_def step_main_def)
  show ?thesis
    using a stdin_data_awaiting [OF a, of chunk] unfolding r by (simp add: awaiting_def)
qed

section \<open>The input-line request\<close>

text \<open>
  C10. An input-line request resolves with the first chunk that standard input delivers
  after it, as it is. In both files: once the request \<open>k\<close> has been handled, whatever
  other events follow (none of them a chunk of input, none ending the process), the next
  chunk is acknowledged to every waiting request, \<open>k\<close> among them, as the value
  \<open>AckLine chunk\<close> for the whole chunk, whatever line feeds it holds; the listeners
  are then gone.
\<close>

theorem input_line_is_first_chunk:
  "(exited s = None \<and> (\<forall>e\<in>set es. \<forall>t. e \<noteq> StdinData t) \<and>
    exited (run s (ReadStdin k # es)) = None \<longrightarrow>
      k \<in> set (stdin_once (run s (ReadStdin k # es))) \<and>
      acks (run s (ReadStdin k # es @ [StdinData chunk])) =
        acks (run s (ReadStdin k # es)) @
        map (\<lambda>j. (j, AckLine chunk)) (stdin_once (run s (ReadStdin k # es))) \<and>
      stdin_once (run s (ReadStdin k # es @ [StdinData chunk])) = []) \<and>
   (exited sm = None \<and> (\<forall>e\<in>set esm. \<forall>t. e \<noteq> StdinData_main t) \<and>
    exited (run_main sm (ReadLine km # esm)) = None \<longrightarrow>
      km \<in> set (stdin_once (run_main sm (ReadLine km # esm))) \<and>
      acks (run_main sm (ReadLine km # esm @ [StdinData_main chunkm])) =
        acks (run_main sm (ReadLine km # esm)) @
        map (\<lambda>j. (j, AckLine chunkm)) (stdin_once (run_main sm (ReadLine km # esm))) \<and>
      stdin_once (run_main sm (ReadLine km # esm @ [StdinData_main chunkm])) = [])"
  using readStdin_chunk [of s es k chunk] readLine_chunk [of sm esm km chunkm] by blast

theorem input_line_is_first_chunk_witness:
  "acks (run quiet_example [ReadStdin 3, Print ''> '' 2, StdinData (''a'' @ [CHR 0x0A] @ ''b'')]) =
     [(2, AckVoid), (3, AckLine (''a'' @ [CHR 0x0A] @ ''b''))] \<and>
   acks (run_main quiet_example_main
          [ReadLine 3, EmitToStdout ''> '' 2, StdinData_main (''a'' @ [CHR 0x0A] @ ''b'')]) =
     [(2, AckVoid), (3, AckLine (''a'' @ [CHR 0x0A] @ ''b''))]"
proof -
  have a: "exited quiet_example = None"
    by (simp add: example_defs startLoading_def basic_defs)
  have b: "\<forall>e\<in>set [Print ''> '' 2]. \<forall>t. e \<noteq> StdinData t" by simp
  have c: "run quiet_example [ReadStdin 3, Print ''> '' 2] =
           quiet_example\<lparr>loadingInterval := None, intervals := [],
             process_stdout := [Write clear_sequence, Write ''> ''],
             stdin_flowing := True, stdin_once := [3], acks := [(2, AckVoid)]\<rparr>"
    by (simp add: example_defs run_def step_def handler_defs basic_defs)
  have am: "exited quiet_example_main = None"
    by (simp add: example_defs startLoading_main_def basic_defs)
  have bm: "\<forall>e\<in>set [EmitToStdout ''> '' 2]. \<forall>t. e \<noteq> StdinData_main t" by simp
  have cm: "run_main quiet_example_main [ReadLine 3, EmitToStdout ''> '' 2] =
           quiet_example_main\<lparr>loadingInterval := None, intervals := [],
             process_stdout := [Write clear_sequence, Write ''> ''],
             stdin_flowing := True, stdin_once := [3], acks := [(2, AckVoid)]\<rparr>"
    by (simp add: example_defs run_main_def step_main_def handler_main_defs basic_defs)
  have d: "exited (run quiet_example [ReadStdin 3, Print ''> '' 2]) = None"
    unfolding c using a by simp
  have dm: "exited (run_main quiet_example_main [ReadLine 3, EmitToStdout ''> '' 2]) = None"
    unfolding cm using am by simp
  show ?thesis
    using input_line_is_first_chunk [of quiet_example "[Print ''> '' 2]" 3
        "''a'' @ [CHR 0x0A] @ ''b''" quiet_example_main "[EmitToStdout ''> '' 2]" 3
        "''a'' @ [CHR 0x0A] @ ''b''"] a b d am bm dm
    by (simp add: c cm)
qed

subsection \<open>Stopping the indicator, leaving the process\<close>

lemma stopLoading_loading:
  "loadingInterval s = Some h \<Longrightarrow>
     stopLoading s = s\<lparr>intervals := filter (\<lambda>t. fst t \<noteq> h) (intervals s), loadingInterval := None,
       process_stdout := process_stdout s @ [Write clear_sequence]\<rparr>"
  by (simp add: basic_defs)

lemma readStdin_while_loading:
  "exited s = None \<Longrightarrow> loadingInterval s = Some h \<Longrightarrow>
   step s (ReadStdin k) =
     s\<lparr>intervals := filter (\<lambda>t. fst t \<noteq> h) (intervals s), loadingInterval := None,
       process_stdout := process_stdout s @ [Write clear_sequence],
       stdin_flowing := True, stdin_once := stdin_once s @ [k]\<rparr>"
  by (simp add: step_def on_readStdin_def Let_def stopLoading_loading)

lemma readLine_while_loading:
  "exited s = None \<Longrightarrow> loadingInterval s = Some h \<Longrightarrow>
   step_main s (ReadLine k) =
     s\<lparr>intervals := filter (\<lambda>t. fst t \<noteq> h) (intervals s), loadingInterval := None,
       process_stdout := process_stdout s @ [Write clear_sequence],
       stdin_flowing := True, stdin_once := stdin_once s @ [k]\<rparr>"
  by (simp add: step_main_def on_readStdin_def Let_def stopLoading_loading)

lemma print_while_loading:
  "exited s = None \<Longrightarrow> loadingInterval s = Some h \<Longrightarrow>
   step s (Print t k) =
     s\<lparr>process_stdout :=
         process_stdout s @ [Write clear_sequence, Write t, Write (lastLoadingLineWritten s)],
       acks := acks s @ [(k, AckVoid)]\<rparr>"
  by (simp add: step_def on_print_def Let_def basic_defs writeLastLoadingLine_def)

lemma emitToStdout_while_loading:
  "exited s = None \<Longrightarrow> loadingInterval s = Some h \<Longrightarrow>
   step_main s (EmitToStdout t k) =
     s\<lparr>intervals := filter (\<lambda>t. fst t \<noteq> h) (intervals s), loadingInterval := None,
       process_stdout := process_stdout s @ [Write clear_sequence, Write t],
       acks := acks s @ [(k, AckVoid)]\<rparr>"
  by (simp add: step_main_def on_emitToStdout_def Let_def basic_defs)

lemma run_exited: "exited s \<noteq> None \<Longrightarrow> run s es = s"
  unfolding run_def by (induction es) (auto simp: step_def)

lemma run_main_exited: "exited s \<noteq> None \<Longrightarrow> run_main s es = s"
  unfolding run_main_def by (induction es) (auto simp: step_main_def)

lemma terminate_exits:
  assumes "exited s = None"
  shows "exited (step s Terminate) = Some 0 \<and> run s (Terminate # es) = step s Terminate"
proof -
  have "exited (step s Terminate) = Some 0"
    using assms by (simp add: step_def on_terminate_def process_exit_def)
  then show ?thesis by (simp add: run_Cons run_exited)
qed

lemma disconnect_exits:
  assumes "exited s = None"
  shows "exited (step s Disconnect) = Some 0 \<and> run s (Disconnect # es) = step s Disconnect"
proof -
  have "exited (step s Disconnect) = Some 0"
    using assms by (simp add: step_def on_disconnect_def process_exit_def)
  then show ?thesis by (simp add: run_Cons run_exited)
qed

lemma terminate_main_exits:
  assumes "exited s = None"
  shows "exited (step_main s Terminate_main) = Some 0 \<and>
         run_main s (Terminate_main # es) = step_main s Terminate_main"
proof -
  have "exited (step_main s Terminate_main) = Some 0"
    using assms by (simp add: step_main_def on_terminate_def process_exit_def)
  then show ?thesis by (simp add: run_main_Cons run_main_exited)
qed

lemma disconnect_main_continues:
  "exited s = None \<Longrightarrow>
     step_main s Disconnect_main = debugLog ''Disconnected from server.'' s \<and>
     exited (step_main s Disconnect_main) = None"
  by (simp add: step_main_def on_disconnect_main_def debugLog_def console_log_def)

lemma quiet_example_facts:
  "exited quiet_example = None" "loadingInterval quiet_example = Some 1"
  "acks quiet_example = []" "stdin_once quiet_example = []"
  by (simp_all add: example_defs startLoading_def basic_defs)

lemma quiet_example_main_facts:
  "exited quiet_example_main = None" "loadingInterval quiet_example_main = Some 0"
  "acks quiet_example_main = []" "stdin_once quiet_example_main = []"
  by (simp_all add: example_defs startLoading_main_def basic_defs)

section \<open>The loading indicator\<close>

lemma stopLoading_no_interval: "one_spinner s \<Longrightarrow> intervals (stopLoading s) = []"
  by (auto simp: one_spinner_def basic_defs split: option.splits)

lemma startLoading_one_interval:
  assumes "one_spinner s"
  shows "length (intervals (startLoading t ms s)) = 1 \<and> one_spinner (startLoading t ms s)"
  using stopLoading_no_interval [OF assms]
  by (cases "loadingInterval s"; cases ms)
    (simp_all add: one_spinner_def startLoading_def basic_defs Let_def)

text \<open>No \<^verbatim>\<open>startLoading\<close> disarms a deadline timer, and a timer that fires stops the indicator.\<close>

lemma startLoading_keeps_timeouts:
  "timeouts (startLoading t ms s) =
     timeouts s @ (case ms of None \<Rightarrow> [] | Some d \<Rightarrow> [(next_timer s, d)])"
  by (simp add: startLoading_def basic_defs Let_def split: option.splits)

lemma startLoading_main_keeps_timeouts:
  "timeouts (startLoading_main t ms s) =
     timeouts s @ (case ms of None \<Rightarrow> [] | Some d \<Rightarrow> [(next_timer s, d)])"
  by (simp add: startLoading_main_def basic_defs Let_def split: option.splits)

lemma stale_timeout_stops:
  "h \<in> fst ` set (timeouts s) \<Longrightarrow> loadingInterval (timeout_fire h s) = None"
  by (simp add: timeout_fire_def basic_defs split: option.splits)

text \<open>
  C1. A second \<^verbatim>\<open>startLoading\<close> should cancel every timer of the session before it.
  The code cancels the interval only: \<^verbatim>\<open>stopLoading\<close> clears \<^verbatim>\<open>loadingInterval\<close>,
  and the handle of the deadline's \<^verbatim>\<open>setTimeout\<close> is not kept. After
  \<^verbatim>\<open>startLoading("A", 100)\<close> and \<^verbatim>\<open>startLoading("B", null)\<close> one interval is armed
  (that of "B"), the deadline timer of "A" is still armed, and when it fires it stops
  the session of "B".
\<close>

theorem earlier_deadline_stops_later_session:
  "timeouts (run (initial [] [] [] 0)
      [StartLoading ''A'' (Some 100) 7, StartLoading ''B'' None 8]) = [(0, 100)] \<and>
   loadingInterval (run (initial [] [] [] 0)
      [StartLoading ''A'' (Some 100) 7, StartLoading ''B'' None 8]) = Some 2 \<and>
   intervals (run (initial [] [] [] 0)
      [StartLoading ''A'' (Some 100) 7, StartLoading ''B'' None 8]) =
      [(2, \<lparr>spinner_text = ''B'', spinner_i = 0\<rparr>)] \<and>
   loadingInterval (run (initial [] [] [] 0)
      [StartLoading ''A'' (Some 100) 7, StartLoading ''B'' None 8, TimeoutFire 0]) = None \<and>
   intervals (run (initial [] [] [] 0)
      [StartLoading ''A'' (Some 100) 7, StartLoading ''B'' None 8, TimeoutFire 0]) = []"
  by (simp add: example_defs run_def step_def handler_defs basic_defs)

section \<open>Direct output while loading\<close>

text \<open>
  C2, as the claim states it, fails in \<^verbatim>\<open>src/main.ts\<close>: its \<^verbatim>\<open>emitToStdout\<close> handler
  calls \<^verbatim>\<open>stopLoading\<close>. With the spinner of "Working" armed, a direct-output request
  disarms the interval, and writes the clear sequence and the text with no redraw.
\<close>

theorem emitToStdout_ends_loading:
  "loadingInterval quiet_example_main = Some 0 \<and>
   intervals quiet_example_main = [(0, \<lparr>spinner_text = ''Working'', spinner_i = 0\<rparr>)] \<and>
   loadingInterval (step_main quiet_example_main (EmitToStdout ''x'' 7)) = None \<and>
   intervals (step_main quiet_example_main (EmitToStdout ''x'' 7)) = [] \<and>
   process_stdout (step_main quiet_example_main (EmitToStdout ''x'' 7)) =
     process_stdout quiet_example_main @ [Write clear_sequence, Write ''x'']"
  by (simp add: example_defs step_main_def handler_main_defs basic_defs)

text \<open>
  C2, amended. While loading, the \<^verbatim>\<open>print\<close> handler writes the clear sequence, the
  text as it is and the last status line written, acknowledges, and changes nothing
  else: the interval stays armed with its text and its counter, and
  \<^verbatim>\<open>lastLoadingLineWritten\<close> is the same. The \<^verbatim>\<open>emitToStdout\<close> handler of
  \<^verbatim>\<open>src/main.ts\<close> stops the loading indicator (interval disarmed, line cleared),
  writes the text as it is and acknowledges, with no redraw.
\<close>

theorem direct_output_while_loading:
  "(exited s = None \<and> loadingInterval s = Some h \<longrightarrow>
      step s (Print t k) =
        s\<lparr>process_stdout :=
            process_stdout s @ [Write clear_sequence, Write t, Write (lastLoadingLineWritten s)],
          acks := acks s @ [(k, AckVoid)]\<rparr>) \<and>
   (exited sm = None \<and> loadingInterval sm = Some hm \<longrightarrow>
      step_main sm (EmitToStdout tm km) =
        sm\<lparr>intervals := filter (\<lambda>t. fst t \<noteq> hm) (intervals sm), loadingInterval := None,
           process_stdout := process_stdout sm @ [Write clear_sequence, Write tm],
           acks := acks sm @ [(km, AckVoid)]\<rparr>)"
  using print_while_loading [of s h t k] emitToStdout_while_loading [of sm hm tm km] by blast

theorem direct_output_while_loading_witness:
  "step quiet_example (Print ''x'' 7) =
     quiet_example\<lparr>process_stdout :=
         process_stdout quiet_example @
           [Write clear_sequence, Write ''x'', Write (lastLoadingLineWritten quiet_example)],
       acks := acks quiet_example @ [(7, AckVoid)]\<rparr> \<and>
   step_main quiet_example_main (EmitToStdout ''x'' 7) =
     quiet_example_main\<lparr>intervals := filter (\<lambda>t. fst t \<noteq> 0) (intervals quiet_example_main),
       loadingInterval := None,
       process_stdout := process_stdout quiet_example_main @ [Write clear_sequence, Write ''x''],
       acks := acks quiet_example_main @ [(7, AckVoid)]\<rparr>"
  using direct_output_while_loading [of quiet_example 1 "''x''" 7 quiet_example_main 0 "''x''" 7]
    quiet_example_facts(1,2) quiet_example_main_facts(1,2)
  by blast

section \<open>Termination and disconnect\<close>

text \<open>
  C6, as the claim states it, fails in \<^verbatim>\<open>src/main.ts\<close>: its \<^verbatim>\<open>disconnect\<close> handler only
  logs. After a disconnect the process has not exited, and a later request is handled
  and acknowledged.
\<close>

theorem disconnect_main_goes_on:
  "exited quiet_example_main = None \<and>
   exited (step_main quiet_example_main Disconnect_main) = None \<and>
   acks (run_main quiet_example_main [Disconnect_main, StopLoading_main 5]) = [(5, AckVoid)]"
  by (simp add: example_defs run_main_def step_main_def handler_main_defs basic_defs)

text \<open>
  C6, amended. On a termination request both files call \<^verbatim>\<open>process.exit(0)\<close>, and no
  later event is processed. On a disconnect the file with \<^verbatim>\<open>print\<close> does the same;
  \<^verbatim>\<open>src/main.ts\<close> writes its debug line and goes on running.
\<close>

theorem terminate_and_disconnect:
  "(exited s = None \<longrightarrow>
      exited (step s Terminate) = Some 0 \<and> run s (Terminate # es) = step s Terminate \<and>
      exited (step s Disconnect) = Some 0 \<and> run s (Disconnect # es) = step s Disconnect) \<and>
   (exited sm = None \<longrightarrow>
      exited (step_main sm Terminate_main) = Some 0 \<and>
      run_main sm (Terminate_main # esm) = step_main sm Terminate_main \<and>
      step_main sm Disconnect_main = debugLog ''Disconnected from server.'' sm \<and>
      exited (step_main sm Disconnect_main) = None)"
  using terminate_exits [of s es] disconnect_exits [of s es] terminate_main_exits [of sm esm]
    disconnect_main_continues [of sm] by blast

theorem terminate_and_disconnect_witness:
  "exited (step quiet_example Terminate) = Some 0 \<and>
   run quiet_example [Terminate, Print ''x'' 7] = step quiet_example Terminate \<and>
   exited (step quiet_example Disconnect) = Some 0 \<and>
   run quiet_example [Disconnect, Print ''x'' 7] = step quiet_example Disconnect \<and>
   exited (step_main quiet_example_main Terminate_main) = Some 0 \<and>
   run_main quiet_example_main [Terminate_main, EmitToStdout ''x'' 7] =
     step_main quiet_example_main Terminate_main \<and>
   exited (step_main quiet_example_main Disconnect_main) = None"
  using terminate_and_disconnect [of quiet_example "[Print ''x'' 7]" quiet_example_main
      "[EmitToStdout ''x'' 7]"]
    quiet_example_facts(1) quiet_example_main_facts(1)
  by blast

section \<open>The input-line request while loading\<close>

text \<open>
  C8, as the claim states it, fails: the request does not resolve with exactly one line.
  While the start-up indicator is shown, an input-line request followed by a chunk of
  two lines is acknowledged with both lines.
\<close>

theorem input_line_two_lines:
  "loadingInterval quiet_example = Some 1 \<and>
   acks (run quiet_example
      [ReadStdin 3, StdinData (''a'' @ [CHR 0x0A] @ ''b'' @ [CHR 0x0A])]) =
     [(3, AckLine (''a'' @ [CHR 0x0A] @ ''b'' @ [CHR 0x0A]))] \<and>
   \<not> exactly_one_line (''a'' @ [CHR 0x0A] @ ''b'' @ [CHR 0x0A])"
  by (simp add: example_defs run_def step_def handler_defs basic_defs stdin_data_def
      stdin_listener_def exactly_one_line_def)

text \<open>
  C8, amended. In both files an input-line request received while loading first stops
  the indicator (the interval is disarmed, \<^verbatim>\<open>loadingInterval\<close> is null, the line is
  cleared), then makes standard input flow and registers its listener. The request
  resolves with the first chunk that standard input delivers afterwards, whole and
  unchanged, whether or not it is exactly one line; then no listener is left and the
  stream is paused.
\<close>

theorem input_line_while_loading:
  "(exited s = None \<and> loadingInterval s = Some h \<longrightarrow>
      step s (ReadStdin k) =
        s\<lparr>intervals := filter (\<lambda>t. fst t \<noteq> h) (intervals s), loadingInterval := None,
          process_stdout := process_stdout s @ [Write clear_sequence],
          stdin_flowing := True, stdin_once := stdin_once s @ [k]\<rparr> \<and>
      ((\<forall>e\<in>set es. \<forall>t. e \<noteq> StdinData t) \<and> exited (run s (ReadStdin k # es)) = None \<longrightarrow>
         k \<in> set (stdin_once (run s (ReadStdin k # es))) \<and>
         acks (run s (ReadStdin k # es @ [StdinData chunk])) =
           acks (run s (ReadStdin k # es)) @
           map (\<lambda>j. (j, AckLine chunk)) (stdin_once (run s (ReadStdin k # es))) \<and>
         stdin_once (run s (ReadStdin k # es @ [StdinData chunk])) = [] \<and>
         \<not> stdin_flowing (run s (ReadStdin k # es @ [StdinData chunk])))) \<and>
   (exited sm = None \<and> loadingInterval sm = Some hm \<longrightarrow>
      step_main sm (ReadLine km) =
        sm\<lparr>intervals := filter (\<lambda>t. fst t \<noteq> hm) (intervals sm), loadingInterval := None,
          process_stdout := process_stdout sm @ [Write clear_sequence],
          stdin_flowing := True, stdin_once := stdin_once sm @ [km]\<rparr> \<and>
      ((\<forall>e\<in>set esm. \<forall>t. e \<noteq> StdinData_main t) \<and>
       exited (run_main sm (ReadLine km # esm)) = None \<longrightarrow>
         km \<in> set (stdin_once (run_main sm (ReadLine km # esm))) \<and>
         acks (run_main sm (ReadLine km # esm @ [StdinData_main chunkm])) =
           acks (run_main sm (ReadLine km # esm)) @
           map (\<lambda>j. (j, AckLine chunkm)) (stdin_once (run_main sm (ReadLine km # esm))) \<and>
         stdin_once (run_main sm (ReadLine km # esm @ [StdinData_main chunkm])) = [] \<and>
         \<not> stdin_flowing (run_main sm (ReadLine km # esm @ [StdinData_main chunkm]))))"
  using readStdin_while_loading [of s h k] readStdin_chunk [of s es k chunk]
    readLine_while_loading [of sm hm km] readLine_chunk [of sm esm km chunkm]
  by blast

theorem input_line_while_loading_witness:
  "loadingInterval quiet_example = Some 1 \<and>
   loadingInterval (step quiet_example (ReadStdin 3)) = None \<and>
   intervals (step quiet_example (ReadStdin 3)) = [] \<and>
   acks (run quiet_example [ReadStdin 3, StdinData (''a'' @ [CHR 0x0A] @ ''b'')]) =
     [(3, AckLine (''a'' @ [CHR 0x0A] @ ''b''))] \<and>
   stdin_once (run quiet_example [ReadStdin 3, StdinData (''a'' @ [CHR 0x0A] @ ''b'')]) = [] \<and>
   loadingInterval quiet_example_main = Some 0 \<and>
   loadingInterval (step_main quiet_example_main (ReadLine 3)) = None \<and>
   intervals (step_main quiet_example_main (ReadLine 3)) = [] \<and>
   acks (run_main quiet_example_main [ReadLine 3, StdinData_main (''a'' @ [CHR 0x0A] @ ''b'')]) =
     [(3, AckLine (''a'' @ [CHR 0x0A] @ ''b''))] \<and>
   stdin_once (run_main quiet_example_main
     [ReadLine 3, StdinData_main (''a'' @ [CHR 0x0A] @ ''b'')]) = []"
proof -
  have i: "intervals quiet_example = [(1, \<lparr>spinner_text = ''Connecting to server...'', spinner_i = 0\<rparr>)]"
    by (simp add: example_defs startLoading_def basic_defs)
  have im: "intervals quiet_example_main = [(0, \<lparr>spinner_text = ''Working'', spinner_i = 0\<rparr>)]"
    by (simp add: example_defs startLoading_main_def basic_defs)
  have e: "\<forall>e\<in>set ([]::event list). \<forall>t. e \<noteq> StdinData t" by simp
  have em: "\<forall>e\<in>set ([]::event_main list). \<forall>t. e \<noteq> StdinData_main t" by simp
  note t = input_line_while_loading [of quiet_example 1 3 "[]" "''a'' @ [CHR 0x0A] @ ''b''"
      quiet_example_main 0 3 "[]" "''a'' @ [CHR 0x0A] @ ''b''"]
  have s1: "step quiet_example (ReadStdin 3) =
        quiet_example\<lparr>intervals := filter (\<lambda>t. fst t \<noteq> 1) (intervals quiet_example),
          loadingInterval := None,
          process_stdout := process_stdout quiet_example @ [Write clear_sequence],
          stdin_flowing := True, stdin_once := stdin_once quiet_example @ [3]\<rparr>"
    using t quiet_example_facts(1,2) by blast
  have s1m: "step_main quiet_example_main (ReadLine 3) =
        quiet_example_main\<lparr>intervals := filter (\<lambda>t. fst t \<noteq> 0) (intervals quiet_example_main),
          loadingInterval := None,
          process_stdout := process_stdout quiet_example_main @ [Write clear_sequence],
          stdin_flowing := True, stdin_once := stdin_once quiet_example_main @ [3]\<rparr>"
    using t quiet_example_main_facts(1,2) by blast
  have x: "exited (run quiet_example [ReadStdin 3]) = None"
    by (simp add: run_def s1 quiet_example_facts)
  have xm: "exited (run_main quiet_example_main [ReadLine 3]) = None"
    by (simp add: run_main_def s1m quiet_example_main_facts)
  have r: "acks (run quiet_example ([ReadStdin 3] @ [StdinData (''a'' @ [CHR 0x0A] @ ''b'')])) =
           acks (run quiet_example [ReadStdin 3]) @
           map (\<lambda>j. (j, AckLine (''a'' @ [CHR 0x0A] @ ''b''))) (stdin_once (run quiet_example [ReadStdin 3])) \<and>
         stdin_once (run quiet_example ([ReadStdin 3] @ [StdinData (''a'' @ [CHR 0x0A] @ ''b'')])) = []"
    using t quiet_example_facts(1,2) e x by simp
  have rm: "acks (run_main quiet_example_main ([ReadLine 3] @ [StdinData_main (''a'' @ [CHR 0x0A] @ ''b'')])) =
           acks (run_main quiet_example_main [ReadLine 3]) @
           map (\<lambda>j. (j, AckLine (''a'' @ [CHR 0x0A] @ ''b'')))
             (stdin_once (run_main quiet_example_main [ReadLine 3])) \<and>
         stdin_once (run_main quiet_example_main
           ([ReadLine 3] @ [StdinData_main (''a'' @ [CHR 0x0A] @ ''b'')])) = []"
    using t quiet_example_main_facts(1,2) em xm by simp
  have q: "run quiet_example [ReadStdin 3] = step quiet_example (ReadStdin 3)"
    by (simp add: run_def)
  have qm: "run_main quiet_example_main [ReadLine 3] = step_main quiet_example_main (ReadLine 3)"
    by (simp add: run_main_def)
  show ?thesis
    using r rm by (simp add: q qm s1 s1m i im quiet_example_facts quiet_example_main_facts)
qed

section \<open>Debug logging\<close>

lemma console_lines_append: "console_lines (xs @ ys) = console_lines xs @ console_lines ys"
  by (induction xs rule: console_lines.induct) simp_all

lemmas log_defs = log_lines_def debugging_def console_lines_append

lemma fold_stdin_listener_stdout:
  "process_stdout (fold (stdin_listener chunk) ks s) = process_stdout s"
  by (induction ks arbitrary: s) (simp_all add: stdin_listener_def callback_def)

lemma quiet_dispatch: "\<not> debugging s \<Longrightarrow> log_lines (dispatch e s) = log_lines s"
  by (cases e)
    (auto simp: log_defs handler_defs basic_defs Let_def stdin_data_def
      fold_stdin_listener_stdout split: option.splits)

lemma quiet_dispatch_main: "\<not> debugging s \<Longrightarrow> log_lines (dispatch_main e s) = log_lines s"
  by (cases e)
    (auto simp: log_defs handler_main_defs basic_defs Let_def stdin_data_def
      fold_stdin_listener_stdout split: option.splits)

lemma quiet_step: "\<not> debugging s \<Longrightarrow> log_lines (step s e) = log_lines s"
  by (simp add: step_def quiet_dispatch)

lemma quiet_step_main: "\<not> debugging s \<Longrightarrow> log_lines (step_main s e) = log_lines s"
  by (simp add: step_main_def quiet_dispatch_main)

lemma logged_events:
  assumes "exited s = None" and "debugging s"
  shows "log_lines (step s Connect) = log_lines s @ [debug_tag @ ''Connected to server''] \<and>
    log_lines (step s (GetEnvInfo k)) =
      log_lines s @ [debug_tag @ ''Received getEnvInfo request''] \<and>
    log_lines (step s (RunCommand p b k)) =
      log_lines s @ (debug_tag @ ''Received command: '' @ command p) #
        (if stdin p \<noteq> None \<and> \<not> b then [debug_tag @ ''Command failed: '' @ command p] else []) \<and>
    log_lines (step s (StartLoading t ms k)) =
      log_lines s @
        [debug_tag @ ''Starting loading: '' @ t @ '' with timeoutMs='' @ template_number ms] \<and>
    log_lines (step s (StopLoading k)) = log_lines s @ [debug_tag @ ''Stopping loading''] \<and>
    log_lines (step s Terminate) = log_lines s @ [debug_tag @ ''Terminating''] \<and>
    log_lines (step s Disconnect) =
      log_lines s @ [debug_tag @ ''Disconnected from server, terminating...''] \<and>
    log_lines (step s (Print t k)) = log_lines s \<and>
    log_lines (step s (ReadStdin k)) = log_lines s"
  using assms
  by (auto simp: step_def log_defs handler_defs basic_defs Let_def split: option.splits)

lemma logged_events_main:
  assumes "exited s = None" and "debugging s"
  shows "log_lines (step_main s Connect_main) =
      log_lines s @ [debug_tag @ ''Connected to server, sending start event''] \<and>
    log_lines (step_main s (GetEnvInfo_main k)) =
      log_lines s @ [debug_tag @ ''Received getEnvInfo request''] \<and>
    log_lines (step_main s (RunCommand_main p k)) =
      log_lines s @ [debug_tag @ ''Received command: '' @ command_main p] \<and>
    log_lines (step_main s (StartLoading_main t ms k)) =
      log_lines s @
        [debug_tag @ ''Starting loading: '' @ t @ '' with timeout '' @ template_number ms @ ''ms''] \<and>
    log_lines (step_main s (StopLoading_main k)) = log_lines s @ [debug_tag @ ''Stopping loading''] \<and>
    log_lines (step_main s Terminate_main) = log_lines s @ [debug_tag @ ''Terminating''] \<and>
    log_lines (step_main s Disconnect_main) =
      log_lines s @ [debug_tag @ ''Disconnected from server.''] \<and>
    log_lines (step_main s (EmitToStdout t k)) = log_lines s \<and>
    log_lines (step_main s (ReadLine k)) = log_lines s"
  using assms
  by (auto simp: step_main_def log_defs handler_main_defs basic_defs Let_def split: option.splits)

lemma debug_example_facts:
  "exited debug_example = None" "debugging debug_example"
  "exited debug_example_main = None" "debugging debug_example_main"
  "\<not> debugging quiet_example" "\<not> debugging quiet_example_main"
  by (simp_all add: debug_example_def debug_example_main_def example_defs debugging_def
      startLoading_def startLoading_main_def basic_defs)

text \<open>
  C9, as the claim states it, fails: with the toggle set, the direct-output and the
  input-line requests are not logged. Their handlers never call \<^verbatim>\<open>debugLog\<close>:
  all they write while the start-up indicator is shown is the clear sequence, the text
  and the (still empty) last status line, or the clear sequence alone.
\<close>

theorem direct_output_and_input_line_not_logged:
  "truthy (map_of (process_env debug_example) ''CODAPT_DEBUG'') \<and>
   process_stdout (step debug_example (Print ''x'' 7)) =
     process_stdout debug_example @ [Write clear_sequence, Write ''x'', Write []] \<and>
   process_stdout (step debug_example (ReadStdin 7)) =
     process_stdout debug_example @ [Write clear_sequence] \<and>
   truthy (map_of (process_env debug_example_main) ''CODAPT_DEBUG'') \<and>
   process_stdout (step_main debug_example_main (EmitToStdout ''x'' 7)) =
     process_stdout debug_example_main @ [Write clear_sequence, Write ''x''] \<and>
   process_stdout (step_main debug_example_main (ReadLine 7)) =
     process_stdout debug_example_main @ [Write clear_sequence]"
  by (simp add: debug_example_def debug_example_main_def example_defs step_def step_main_def
      handler_defs handler_main_defs basic_defs)

text \<open>
  C9, amended. When \<^verbatim>\<open>CODAPT_DEBUG\<close> is set to a string that is not empty, each of
  these events of the channel writes one line with \<^verbatim>\<open>console.log\<close>, made of the tag
  \<^verbatim>\<open>[CODAPT CLIENT DEBUG] \<close> and a message: connect, the environment request, the
  execution request (with its command text; a second line when the executor throws at
  once), the start-loading request (the line of \<^verbatim>\<open>startLoading\<close>, with text and
  deadline), the stop-loading request, the termination request and the disconnect. The
  direct-output and input-line requests write no such line. When the toggle is unset or
  empty, no event at all writes one. This holds in both files, with their own messages.
\<close>

theorem debug_logging:
  "(exited s = None \<and> debugging s \<longrightarrow>
      log_lines (step s Connect) = log_lines s @ [debug_tag @ ''Connected to server''] \<and>
      log_lines (step s (GetEnvInfo k)) =
        log_lines s @ [debug_tag @ ''Received getEnvInfo request''] \<and>
      log_lines (step s (RunCommand p b k)) =
        log_lines s @ (debug_tag @ ''Received command: '' @ command p) #
          (if stdin p \<noteq> None \<and> \<not> b then [debug_tag @ ''Command failed: '' @ command p] else []) \<and>
      log_lines (step s (StartLoading t ms k)) =
        log_lines s @
          [debug_tag @ ''Starting loading: '' @ t @ '' with timeoutMs='' @ template_number ms] \<and>
      log_lines (step s (StopLoading k)) = log_lines s @ [debug_tag @ ''Stopping loading''] \<and>
      log_lines (step s Terminate) = log_lines s @ [debug_tag @ ''Terminating''] \<and>
      log_lines (step s Disconnect) =
        log_lines s @ [debug_tag @ ''Disconnected from server, terminating...''] \<and>
      log_lines (step s (Print t k)) = log_lines s \<and>
      log_lines (step s (ReadStdin k)) = log_lines s) \<and>
   (\<not> debugging s \<longrightarrow> log_lines (step s e) = log_lines s) \<and>
   (exited sm = None \<and> debugging sm \<longrightarrow>
      log_lines (step_main sm Connect_main) =
        log_lines sm @ [debug_tag @ ''Connected to server, sending start event''] \<and>
      log_lines (step_main sm (GetEnvInfo_main km)) =
        log_lines sm @ [debug_tag @ ''Received getEnvInfo request''] \<and>
      log_lines (step_main sm (RunCommand_main pm km)) =
        log_lines sm @ [debug_tag @ ''Received command: '' @ command_main pm] \<and>
      log_lines (step_main sm (StartLoading_main tm msm km)) =
        log_lines sm @
          [debug_tag @ ''Starting loading: '' @ tm @ '' with timeout '' @ template_number msm @ ''ms''] \<and>
      log_lines (step_main sm (StopLoading_main km)) =
        log_lines sm @ [debug_tag @ ''Stopping loading''] \<and>
      log_lines (step_main sm Terminate_main) = log_lines sm @ [debug_tag @ ''Terminating''] \<and>
      log_lines (step_main sm Disconnect_main) =
        log_lines sm @ [debug_tag @ ''Disconnected from server.''] \<and>
      log_lines (step_main sm (EmitToStdout tm km)) = log_lines sm \<and>
      log_lines (step_main sm (ReadLine km)) = log_lines sm) \<and>
   (\<not> debugging sm \<longrightarrow> log_lines (step_main sm em) = log_lines sm)"
  using logged_events [of s k p b t ms] quiet_step [of s e]
    logged_events_main [of sm km pm tm msm] quiet_step_main [of sm em]
  by blast

theorem debug_logging_witness:
  "log_lines (step debug_example (StopLoading 7)) =
     log_lines debug_example @ [debug_tag @ ''Stopping loading''] \<and>
   log_lines (step debug_example (Print ''x'' 7)) = log_lines debug_example \<and>
   log_lines (step quiet_example (StopLoading 7)) = log_lines quiet_example \<and>
   log_lines (step_main debug_example_main (StopLoading_main 7)) =
     log_lines debug_example_main @ [debug_tag @ ''Stopping loading''] \<and>
   log_lines (step_main debug_example_main (EmitToStdout ''x'' 7)) = log_lines debug_example_main \<and>
   log_lines (step_main quiet_example_main (StopLoading_main 7)) = log_lines quiet_example_main"
  using debug_logging [where s = debug_example and sm = debug_example_main and k = 7 and km = 7
      and t = "''x''" and tm = "''x''"]
    debug_logging [where s = quiet_example and sm = quiet_example_main and e = "StopLoading 7"
      and em = "StopLoading_main 7"]
    debug_example_facts
  by blast

section \<open>Running commands\<close>

lemma fold_stdin_listener_children:
  "children (fold (stdin_listener chunk) ks s) = children s"
  by (induction ks arbitrary: s) (simp_all add: stdin_listener_def callback_def)

lemma child_unchanged:
  "c < length (children s) \<Longrightarrow> \<not> settles c e \<Longrightarrow>
     c < length (children (dispatch e s)) \<and> children (dispatch e s) ! c = children s ! c"
  by (cases e)
    (auto simp: handler_defs basic_defs Let_def stdin_data_def fold_stdin_listener_children
      nth_append nth_list_update split: option.splits)

lemma child_unchanged_run:
  "c < length (children s) \<Longrightarrow> \<forall>e\<in>set es. \<not> settles c e \<Longrightarrow>
     c < length (children (run s es)) \<and> children (run s es) ! c = children s ! c"
proof (induction es arbitrary: s)
  case Nil
  then show ?case by (simp add: run_def)
next
  case (Cons e es)
  have "c < length (children (step s e)) \<and> children (step s e) ! c = children s ! c"
    using Cons.prems child_unchanged [of c s e] by (simp add: step_def)
  then show ?case
    using Cons.IH [of "step s e"] Cons.prems(2) by (simp add: run_Cons)
qed

lemma child_stdin_unchanged:
  "c < length (children s) \<Longrightarrow>
     c < length (children (dispatch e s)) \<and>
     stdin_written (children (dispatch e s) ! c) = stdin_written (children s ! c) \<and>
     stdin_ended (children (dispatch e s) ! c) = stdin_ended (children s ! c)"
  by (cases e)
    (auto simp: handler_defs basic_defs Let_def stdin_data_def fold_stdin_listener_children
      nth_append nth_list_update split: option.splits)

lemma child_stdin_unchanged_run:
  "c < length (children s) \<Longrightarrow>
     c < length (children (run s es)) \<and>
     stdin_written (children (run s es) ! c) = stdin_written (children s ! c) \<and>
     stdin_ended (children (run s es) ! c) = stdin_ended (children s ! c)"
proof (induction es arbitrary: s)
  case Nil
  then show ?case by (simp add: run_def)
next
  case (Cons e es)
  have "c < length (children (step s e)) \<and>
     stdin_written (children (step s e) ! c) = stdin_written (children s ! c) \<and>
     stdin_ended (children (step s e) ! c) = stdin_ended (children s ! c)"
    using Cons.prems child_stdin_unchanged [of c s e] by (simp add: step_def)
  then show ?case
    using Cons.IH [of "step s e"] by (simp add: run_Cons)
qed

lemma spawn:
  "exited s = None \<Longrightarrow> stdin p = None \<or> b \<Longrightarrow>
     children (step s (RunCommand p b k)) = children s @
       [\<lparr>exec_command = command p, exec_timeout = timeoutMs p,
         stdin_written = (case stdin p of None \<Rightarrow> [] | Some t \<Rightarrow> [t]),
         stdin_ended = (stdin p \<noteq> None), error_listener = True,
         result = Pending, callback_id = k, completed = False, child_killed = False\<rparr>] \<and>
     acks (step s (RunCommand p b k)) = acks s"
  by (auto simp: step_def on_runCommand_def runCommand_def basic_defs Let_def split: option.splits)

lemma exec_callback_first:
  "c < length (children s) \<Longrightarrow> \<not> completed (children s ! c) \<Longrightarrow>
   result (children s ! c) = Pending \<Longrightarrow>
     acks (exec_callback c error out err s) =
       acks s @ [(callback_id (children s ! c), AckResponse (exec_response error out err))] \<and>
     children (exec_callback c error out err s) =
       (children s)[c := (children s ! c)
          \<lparr>completed := True, result := Resolved (exec_response error out err)\<rparr>]"
  by (simp add: exec_callback_def resolve_def basic_defs Let_def)

lemma exec_response_exit:
  "exec_response (exit_report c) out err = \<lparr>exitCode = NumberCode c, stdout = out, stderr = err\<rparr>"
  by (simp add: exec_response_def exit_report_def code_or_minus_one_def)


lemma spawned_child:
  assumes "exited s = None" and "stdin p = None \<or> b"
    and "\<forall>e\<in>set es. \<not> settles (length (children s)) e"
  shows "length (children s) < length (children (run s (RunCommand p b k # es))) \<and>
     children (run s (RunCommand p b k # es)) ! length (children s) =
       \<lparr>exec_command = command p, exec_timeout = timeoutMs p,
         stdin_written = (case stdin p of None \<Rightarrow> [] | Some t \<Rightarrow> [t]),
         stdin_ended = (stdin p \<noteq> None), error_listener = True,
         result = Pending, callback_id = k, completed = False, child_killed = False\<rparr>"
proof -
  let ?s1 = "step s (RunCommand p b k)"
  have a: "length (children s) < length (children ?s1)"
    using spawn [OF assms(1,2), of k] by simp
  have b: "children ?s1 ! length (children s) =
       \<lparr>exec_command = command p, exec_timeout = timeoutMs p,
         stdin_written = (case stdin p of None \<Rightarrow> [] | Some t \<Rightarrow> [t]),
         stdin_ended = (stdin p \<noteq> None), error_listener = True,
         result = Pending, callback_id = k, completed = False, child_killed = False\<rparr>"
    using spawn [OF assms(1,2), of k] by simp
  show ?thesis
    using child_unchanged_run [OF a assms(3)] b by (simp add: run_Cons)
qed

lemma run_snoc: "exited (run s es) = None \<Longrightarrow> run s (es @ [e]) = dispatch e (run s es)"
  by (simp add: run_def step_def)

lemma exit_reported:
  assumes "exited s = None" and "stdin p = None \<or> b"
    and "\<forall>e\<in>set es. \<not> settles (length (children s)) e"
    and "exited (run s (RunCommand p b k # es)) = None"
  shows "acks (run s (RunCommand p b k # es @ [ExecCallback (length (children s)) error out err])) =
       acks (run s (RunCommand p b k # es)) @ [(k, AckResponse (exec_response error out err))] \<and>
     result (children (run s (RunCommand p b k # es @
       [ExecCallback (length (children s)) error out err])) ! length (children s)) =
       Resolved (exec_response error out err)"
proof -
  let ?c = "length (children s)"
  let ?s1 = "run s (RunCommand p b k # es)"
  note ch = spawned_child [OF assms(1,2,3), of k]
  have r: "run s (RunCommand p b k # es @ [ExecCallback ?c error out err]) =
           exec_callback ?c error out err ?s1"
    using run_snoc [OF assms(4), of "ExecCallback ?c error out err"] by simp
  have "result (children ?s1 ! ?c) = Pending" "callback_id (children ?s1 ! ?c) = k"
    "\<not> completed (children ?s1 ! ?c)"
    using ch by simp_all
  then show ?thesis
    using exec_callback_first [of ?c ?s1 error out err] ch unfolding r by simp
qed

text \<open>
  A child that emits \<^verbatim>\<open>error\<close> while its request is pending: the listener of
  \<^verbatim>\<open>exec\<close> has resolved the promise when the client's listener rejects it, so the
  request is acknowledged with the response of the completion callback, and the
  rejection is lost.
\<close>

lemma child_error_first:
  assumes "c < length (children s)" and "\<not> completed (children s ! c)"
    and "result (children s ! c) = Pending"
  shows "acks (child_error c e m out err s) =
       acks s @ [(callback_id (children s ! c), AckResponse (exec_response (Some e) out err))] \<and>
     result (children (child_error c e m out err s) ! c) =
       Resolved (exec_response (Some e) out err)"
proof -
  let ?s1 = "exec_callback c (Some e) out err s"
  note f = exec_callback_first [OF assms, of "Some e" out err]
  have l: "c < length (children ?s1)"
    and r: "result (children ?s1 ! c) = Resolved (exec_response (Some e) out err)"
    using f assms(1) by simp_all
  have "reject c (RejectWith (error_response m)) ?s1 = ?s1"
    using l r by (simp add: reject_def)
  then have "child_error c e m out err s = ?s1"
    using assms(1) by (simp add: child_error_def Let_def)
  then show ?thesis using f r by simp
qed

lemma spawn_failure_resolved:
  assumes "exited s = None" and "stdin p = None \<or> b"
    and "\<forall>e\<in>set es. \<not> settles (length (children s)) e"
    and "exited (run s (RunCommand p b k # es)) = None"
  shows "acks (run s (RunCommand p b k # es @ [ChildError (length (children s)) e m out err])) =
       acks (run s (RunCommand p b k # es)) @ [(k, AckResponse (exec_response (Some e) out err))] \<and>
     result (children (run s (RunCommand p b k # es @
       [ChildError (length (children s)) e m out err])) ! length (children s)) =
       Resolved (exec_response (Some e) out err)"
proof -
  let ?c = "length (children s)"
  let ?s1 = "run s (RunCommand p b k # es)"
  note ch = spawned_child [OF assms(1,2,3), of k]
  have r: "run s (RunCommand p b k # es @ [ChildError ?c e m out err]) =
           child_error ?c e m out err ?s1"
    using run_snoc [OF assms(4), of "ChildError ?c e m out err"] by simp
  have "?c < length (children ?s1)" "\<not> completed (children ?s1 ! ?c)"
    "result (children ?s1 ! ?c) = Pending" "callback_id (children ?s1 ! ?c) = k"
    using ch by simp_all
  then show ?thesis
    using child_error_first [of ?c ?s1 e m out err] unfolding r by simp
qed








lemma child_stdin:
  assumes "exited s = None" and "stdin p = None \<or> b"
  shows "length (children s) < length (children (run s (RunCommand p b k # es))) \<and>
     stdin_written (children (run s (RunCommand p b k # es)) ! length (children s)) =
       (case stdin p of None \<Rightarrow> [] | Some t \<Rightarrow> [t]) \<and>
     stdin_ended (children (run s (RunCommand p b k # es)) ! length (children s)) =
       (stdin p \<noteq> None)"
proof -
  let ?s1 = "step s (RunCommand p b k)"
  have a: "length (children s) < length (children ?s1)"
    using spawn [OF assms, of k] by simp
  have "stdin_written (children ?s1 ! length (children s)) =
          (case stdin p of None \<Rightarrow> [] | Some t \<Rightarrow> [t])"
    and "stdin_ended (children ?s1 ! length (children s)) = (stdin p \<noteq> None)"
    using spawn [OF assms, of k] by simp_all
  then show ?thesis
    using child_stdin_unchanged_run [OF a, of es] by (simp add: run_Cons)
qed


lemma cat_example_facts:
  "stdin cat_example = Some (''hello'' @ [CHR 0x0A])" "timeoutMs cat_example = Some 200"
  "command cat_example = ''cat''" "children quiet_example = []"
  "children quiet_example_main = []"
  by (simp_all add: cat_example_def example_defs startLoading_def startLoading_main_def basic_defs)

lemma cat_example_run:
  "exited (run quiet_example [RunCommand cat_example True 7, Print ''x'' 8]) = None"
  "acks (run quiet_example [RunCommand cat_example True 7, Print ''x'' 8]) = [(8, AckVoid)]"
  by (simp_all add: cat_example_def example_defs run_def step_def handler_defs basic_defs)

text \<open>
  C3. When the child of an execution request cannot be spawned, the request should be
  acknowledged with exit code -1, no output and a description of the failure as
  \<^verbatim>\<open>stderr\<close>, by way of the rejection that the client's \<^verbatim>\<open>error\<close> listener builds.
  The code does not get there: the \<^verbatim>\<open>error\<close> listener of \<^verbatim>\<open>exec\<close> runs first and calls
  the completion callback, which resolves the promise with \<^verbatim>\<open>error.code || -1\<close>, the
  string \<^verbatim>\<open>'ENOENT'\<close>, and with empty \<^verbatim>\<open>stdout\<close> and \<^verbatim>\<open>stderr\<close>; the rejection that
  follows is lost. And when a request with input gets a child without a \<^verbatim>\<open>stdin\<close>
  stream, the executor throws and the request is acknowledged with that \<^verbatim>\<open>Error\<close>.
\<close>

theorem spawn_failure_resolves_with_error_code:
  "acks (run quiet_example
     [RunCommand plain_example True 7, ChildError 0 enoent ''spawn /bin/sh ENOENT'' [] []]) =
     [(7, AckResponse \<lparr>exitCode = StringCode ''ENOENT'', stdout = [], stderr = []\<rparr>)] \<and>
   result (children (run quiet_example
     [RunCommand plain_example True 7, ChildError 0 enoent ''spawn /bin/sh ENOENT'' [] []]) ! 0) =
     Resolved \<lparr>exitCode = StringCode ''ENOENT'', stdout = [], stderr = []\<rparr> \<and>
   acks (run quiet_example
     [RunCommand cat_example False 7,
      ChildError 0 \<lparr>code = Some (StringCode ''EMFILE''), killed = False\<rparr>
        ''spawn /bin/sh EMFILE'' [] []]) =
     [(7, AckThrown ''unexpected: child.stdin is null'')]"
  by (simp add: plain_example_def cat_example_def enoent_def example_defs run_def step_def
      handler_defs basic_defs exec_response_def code_or_minus_one_def error_response_def)






text \<open>
  C7. When \<^verbatim>\<open>exec\<close> reports that the child has exited by itself with status \<open>c\<close>,
  together with all that the child wrote to its output and its error stream, the
  promise resolves and the request is acknowledged with exit code \<open>c\<close> and those very
  two texts.
\<close>

theorem normal_exit_reported:
  "exited s = None \<and> (stdin p = None \<or> b) \<and>
   (\<forall>e\<in>set es. \<not> settles (length (children s)) e) \<and>
   exited (run s (RunCommand p b k # es)) = None \<longrightarrow>
     acks (run s (RunCommand p b k # es @
       [ExecCallback (length (children s)) (exit_report c) out err])) =
       acks (run s (RunCommand p b k # es)) @
       [(k, AckResponse \<lparr>exitCode = NumberCode c, stdout = out, stderr = err\<rparr>)] \<and>
     result (children (run s (RunCommand p b k # es @
       [ExecCallback (length (children s)) (exit_report c) out err])) ! length (children s)) =
       Resolved \<lparr>exitCode = NumberCode c, stdout = out, stderr = err\<rparr>"
  using exit_reported [of s p b es k "exit_report c" out err] exec_response_exit [of c out err]
  by simp

theorem normal_exit_reported_witness:
  "acks (run quiet_example
     [RunCommand cat_example True 7, Print ''x'' 8,
      ExecCallback 0 (exit_report 3) ''out'' ''err'']) =
     [(8, AckVoid),
      (7, AckResponse \<lparr>exitCode = NumberCode 3, stdout = ''out'', stderr = ''err''\<rparr>)] \<and>
   acks (run quiet_example
     [RunCommand cat_example True 7, Print ''x'' 8,
      ExecCallback 0 (exit_report 0) ''out'' []]) =
     [(8, AckVoid), (7, AckResponse \<lparr>exitCode = NumberCode 0, stdout = ''out'', stderr = []\<rparr>)]"
  using normal_exit_reported [of quiet_example cat_example True "[Print ''x'' 8]" 7 3 "''out''" "''err''"]
    normal_exit_reported [of quiet_example cat_example True "[Print ''x'' 8]" 7 0 "''out''" "[]"]
    quiet_example_facts(1) cat_example_facts cat_example_run
  by simp

end
